theory Spec2Isabelle
  imports Main "HOL-Library.Signed_Division"
begin

section \<open>Go slices over an explicit memory\<close>

text \<open>
  The program keeps its headers and query parameters in Go slices (\<^verbatim>\<open>[]Header\<close>,
  \<^verbatim>\<open>[]Param\<close>) and copies those slices into saved presets and into outgoing requests.
  A Go slice is a triple of a pointer to a backing array, a length and a capacity; copying
  the slice copies the triple, not the array. The backing arrays therefore live in an
  explicit memory, addressed by natural numbers.

  \<^verbatim>\<open>append\<close> follows the Go language specification: when the capacity suffices the
  element is written into the existing array, otherwise a new, sufficiently large array is
  allocated. How much larger is the runtime's choice; it is kept as \<open>growcap\<close> in the
  memory and no result below depends on it.
\<close>

record slice =
  ptr :: nat
  len :: nat
  cap :: nat

record 'a mem =
  cells :: "nat \<Rightarrow> 'a list"
  next_ptr :: nat
  growcap :: "nat \<Rightarrow> nat"

text \<open>
  The slice of length and capacity zero. A nil slice and an empty non-nil slice are not told
  apart: the program never compares a slice with nil.
\<close>

definition empty_slice :: slice where
  "empty_slice = \<lparr>ptr = 0, len = 0, cap = 0\<rparr>"

definition empty_mem :: "(nat \<Rightarrow> nat) \<Rightarrow> 'a mem" where
  "empty_mem g = \<lparr>cells = (\<lambda>_. []), next_ptr = 1, growcap = g\<rparr>"

definition slice_view :: "'a mem \<Rightarrow> slice \<Rightarrow> 'a list" where
  "slice_view M s = take (len s) (cells M (ptr s))"

text \<open>
  What Go guarantees of every slice value: the length is within the capacity, the capacity
  within the array, and the array has been allocated.
\<close>

definition slice_ok :: "'a mem \<Rightarrow> slice \<Rightarrow> bool" where
  "slice_ok M s \<longleftrightarrow> len s \<le> cap s \<and> cap s \<le> length (cells M (ptr s)) \<and> ptr s < next_ptr M"

text \<open>A fresh array of capacity \<open>max c (length xs)\<close> holding \<open>xs\<close>, the rest zero values.\<close>

definition go_alloc :: "'a \<Rightarrow> 'a mem \<Rightarrow> 'a list \<Rightarrow> nat \<Rightarrow> 'a mem \<times> slice" where
  "go_alloc z M xs c =
     (let n = max c (length xs); a = next_ptr M
      in (M\<lparr>cells := (cells M)(a := xs @ replicate (n - length xs) z), next_ptr := a + 1\<rparr>,
          \<lparr>ptr = a, len = length xs, cap = n\<rparr>))"

text \<open>\<^verbatim>\<open>append(s, x)\<close>; \<open>z\<close> is the zero value of the element type.\<close>

definition go_append :: "'a \<Rightarrow> 'a mem \<Rightarrow> slice \<Rightarrow> 'a \<Rightarrow> 'a mem \<times> slice" where
  "go_append z M s x =
     (if len s < cap s
      then (M\<lparr>cells := (cells M)(ptr s := (cells M (ptr s))[len s := x])\<rparr>, s\<lparr>len := len s + 1\<rparr>)
      else go_alloc z M (slice_view M s @ [x]) (growcap M (cap s)))"

section \<open>models: the data\<close>

text \<open>
  \<^verbatim>\<open>Tab\<close>, \<^verbatim>\<open>Section\<close> and \<^verbatim>\<open>HTTPMethod\<close> are Go \<^verbatim>\<open>int\<close> types
  with \<^verbatim>\<open>iota\<close> constants; the handlers do arithmetic on them, so they stay integers.
  Go's \<^verbatim>\<open>%\<close> truncates towards zero: it is \<open>smod\<close>.
\<close>

type_synonym Tab = int
type_synonym Section = int
type_synonym HTTPMethod = int

abbreviation (input) TabRequest :: Tab where "TabRequest \<equiv> 0"
abbreviation (input) TabResponse :: Tab where "TabResponse \<equiv> 1"
abbreviation (input) TabSaved :: Tab where "TabSaved \<equiv> 2"

abbreviation (input) SectionMethod :: Section where "SectionMethod \<equiv> 0"
abbreviation (input) SectionURL :: Section where "SectionURL \<equiv> 1"
abbreviation (input) SectionHeaders :: Section where "SectionHeaders \<equiv> 2"
abbreviation (input) SectionBody :: Section where "SectionBody \<equiv> 3"
abbreviation (input) SectionParams :: Section where "SectionParams \<equiv> 4"

abbreviation (input) MethodGET :: HTTPMethod where "MethodGET \<equiv> 0"

definition MethodNames :: "string list" where
  "MethodNames = [''GET'', ''POST'', ''PUT'', ''DELETE'', ''PATCH'', ''HEAD'', ''OPTIONS'']"

text \<open>\<^verbatim>\<open>Param{Key, Value}\<close> and \<^verbatim>\<open>Header{Key, Value}\<close>.\<close>

datatype Param = Param string string
datatype Header = Header string string

abbreviation (input) zeroHeader :: Header where "zeroHeader \<equiv> Header [] []"
abbreviation (input) zeroParam :: Param where "zeroParam \<equiv> Param [] []"

record SavedRequest =
  Name :: string
  Method :: HTTPMethod
  URL :: string
  Body :: string
  Headers :: slice
  Params :: slice

record ResponseData =
  Body :: string
  Status :: string
  Time :: string
  StatusCode :: int

record ErrorData =
  Message :: string

text \<open>
  What \<^verbatim>\<open>json.MarshalIndent\<close> writes for one \<^verbatim>\<open>SavedRequest\<close>, and what
  \<^verbatim>\<open>json.Unmarshal\<close> reads: the fields with the contents of the two slices.
\<close>

record PresetJSON =
  j_name :: string
  j_method :: HTTPMethod
  j_url :: string
  j_body :: string
  j_headers :: "Header list"
  j_params :: "Param list"

text \<open>The messages the top-level loop receives (\<^verbatim>\<open>tea.Msg\<close>).\<close>

datatype Msg =
    KeyMsg string
  | WindowSizeMsg int int
  | ResponseMsg ResponseData
  | ErrorMsg ErrorData

subsection \<open>The widgets of the bubbles library\<close>

text \<open>
  The widgets are library code. Each is reduced to what the program reads and writes
  through it: a text input or text area to its value, its focus flag and its width; the
  viewport to its content and size; the list to its items and the index of its cursor
  (\<^verbatim>\<open>SelectedItem\<close> is the item under the cursor, or nothing when the index is out of
  range). How a widget reacts to a message (\<^verbatim>\<open>Update\<close>), the sizing of the text
  area and of the list, and \<^verbatim>\<open>json.Indent\<close> are parameters, collected in \<open>lib\<close>.
\<close>

record textinput =
  ti_value :: string
  ti_focus :: bool
  ti_Width :: int

record textarea =
  ta_value :: string
  ta_focus :: bool

record viewport =
  vp_content :: string
  vp_Width :: int
  vp_Height :: int

record listModel =
  l_items :: "SavedRequest list"
  l_index :: int

definition textinput_New :: textinput where
  "textinput_New = \<lparr>ti_value = [], ti_focus = False, ti_Width = 0\<rparr>"

definition textarea_New :: textarea where
  "textarea_New = \<lparr>ta_value = [], ta_focus = False\<rparr>"

definition viewport_New :: "int \<Rightarrow> int \<Rightarrow> viewport" where
  "viewport_New w h = \<lparr>vp_content = [], vp_Width = w, vp_Height = h\<rparr>"

definition list_New :: "SavedRequest list \<Rightarrow> listModel" where
  "list_New its = \<lparr>l_items = its, l_index = 0\<rparr>"

definition textinput_SetValue :: "textinput \<Rightarrow> string \<Rightarrow> textinput" where
  "textinput_SetValue t s = t\<lparr>ti_value := s\<rparr>"

definition textinput_Focus :: "textinput \<Rightarrow> textinput" where
  "textinput_Focus t = t\<lparr>ti_focus := True\<rparr>"

definition textinput_Blur :: "textinput \<Rightarrow> textinput" where
  "textinput_Blur t = t\<lparr>ti_focus := False\<rparr>"

definition textarea_SetValue :: "textarea \<Rightarrow> string \<Rightarrow> textarea" where
  "textarea_SetValue t s = t\<lparr>ta_value := s\<rparr>"

definition textarea_Focus :: "textarea \<Rightarrow> textarea" where
  "textarea_Focus t = t\<lparr>ta_focus := True\<rparr>"

definition textarea_Blur :: "textarea \<Rightarrow> textarea" where
  "textarea_Blur t = t\<lparr>ta_focus := False\<rparr>"

definition viewport_SetContent :: "viewport \<Rightarrow> string \<Rightarrow> viewport" where
  "viewport_SetContent v s = v\<lparr>vp_content := s\<rparr>"

definition list_SetItems :: "listModel \<Rightarrow> SavedRequest list \<Rightarrow> listModel" where
  "list_SetItems l its = l\<lparr>l_items := its\<rparr>"

definition list_SelectedItem :: "listModel \<Rightarrow> SavedRequest option" where
  "list_SelectedItem l =
     (if 0 \<le> l_index l \<and> l_index l < int (length (l_items l))
      then Some (l_items l ! nat (l_index l)) else None)"

record lib =
  textinput_Update :: "textinput \<Rightarrow> Msg \<Rightarrow> textinput"
  textarea_Update :: "textarea \<Rightarrow> Msg \<Rightarrow> textarea"
  viewport_Update :: "viewport \<Rightarrow> Msg \<Rightarrow> viewport"
  list_Update :: "listModel \<Rightarrow> Msg \<Rightarrow> listModel"
  textarea_SetWidth :: "textarea \<Rightarrow> int \<Rightarrow> textarea"
  textarea_SetHeight :: "textarea \<Rightarrow> int \<Rightarrow> textarea"
  list_SetSize :: "listModel \<Rightarrow> int \<Rightarrow> int \<Rightarrow> listModel"
  json_Indent :: "string \<Rightarrow> string option"
  json_cap :: "nat \<Rightarrow> nat"

subsection \<open>AppModel\<close>

text \<open>
  The fields of \<^verbatim>\<open>AppModel\<close> in the order of the source, followed by the two memories
  that hold the backing arrays of every \<^verbatim>\<open>[]Header\<close> and \<^verbatim>\<open>[]Param\<close> slice, and
  by the log of what \<^verbatim>\<open>saveRequests\<close> has handed to \<^verbatim>\<open>ioutil.WriteFile\<close>
  (path and contents, latest last).
\<close>

record AppModel =
  urlInput :: textinput
  bodyInput :: textarea
  responseVP :: viewport
  paramInput :: textinput
  headerInput :: textinput
  savedList :: listModel
  saveNameInput :: textinput
  params :: slice
  headers :: slice
  savedRequests :: "SavedRequest list"
  configPath :: string
  activeTab :: Tab
  activeSection :: Section
  selectedMethod :: HTTPMethod
  loading :: bool
  response :: string
  status :: string
  responseTime :: string
  errorMsg :: string
  inputMode :: bool
  isSaving :: bool
  isDeleting :: bool
  width :: int
  height :: int
  headerMem :: "Header mem"
  paramMem :: "Param mem"
  fileWrites :: "(string \<times> PresetJSON list) list"

datatype panic = IndexOutOfRange | SliceBoundsOutOfRange


datatype Cmd = Quit | SendRequest

section \<open>models: the methods of AppModel\<close>

text \<open>
  The model is passed and returned; the getters and setters of the source are the selectors
  and updates of the record. Go's \<^verbatim>\<open>int\<close> is modelled by \<open>int\<close>: the only
  arithmetic is on enum values and window sizes, far from the 64-bit bounds.
\<close>

definition textinput_Value :: "textinput \<Rightarrow> string" where
  "textinput_Value t = ti_value t"

definition textarea_Value :: "textarea \<Rightarrow> string" where
  "textarea_Value t = ta_value t"

definition list_Index :: "listModel \<Rightarrow> int" where
  "list_Index l = l_index l"

definition toJSON :: "AppModel \<Rightarrow> SavedRequest \<Rightarrow> PresetJSON" where
  "toJSON m r =
     \<lparr>j_name = Name r, j_method = SavedRequest.Method r, j_url = SavedRequest.URL r,
      j_body = SavedRequest.Body r,
      j_headers = slice_view (headerMem m) (Headers r),
      j_params = slice_view (paramMem m) (Params r)\<rparr>"

text \<open>
  \<^verbatim>\<open>saveRequests\<close> serialises the whole list and hands it to
  \<^verbatim>\<open>ioutil.WriteFile\<close>; its error is dropped by every caller.
\<close>

definition saveRequests :: "AppModel \<Rightarrow> AppModel" where
  "saveRequests m =
     m\<lparr>fileWrites := fileWrites m @ [(configPath m, map (toJSON m) (savedRequests m))]\<rparr>"

definition AddNewSavedRequest :: "AppModel \<Rightarrow> string \<Rightarrow> AppModel" where
  "AddNewSavedRequest m name =
     (let newReq = \<lparr>Name = name, Method = selectedMethod m,
                     URL = textinput_Value (urlInput m),
                     Body = textarea_Value (bodyInput m),
                     Headers = headers m, Params = params m\<rparr>;
          rs = savedRequests m @ [newReq]
      in saveRequests (m\<lparr>savedRequests := rs, savedList := list_SetItems (savedList m) rs\<rparr>))"

definition LoadRequestFromSaved :: "AppModel \<Rightarrow> AppModel" where
  "LoadRequestFromSaved m =
     (case list_SelectedItem (savedList m) of
        None \<Rightarrow> m
      | Some item \<Rightarrow>
          m\<lparr>selectedMethod := SavedRequest.Method item,
            urlInput := textinput_SetValue (urlInput m) (SavedRequest.URL item),
            bodyInput := textarea_SetValue (bodyInput m) (SavedRequest.Body item),
            headers := Headers item,
            params := Params item,
            activeTab := TabRequest\<rparr>)"

text \<open>
  \<^verbatim>\<open>append(m.savedRequests[:idx], m.savedRequests[idx+1:]...)\<close>: the two slice
  expressions panic unless \<open>0 \<le> idx\<close> and \<open>idx + 1 \<le> len\<close>.
\<close>

definition DeleteSelectedRequest :: "AppModel \<Rightarrow> panic + AppModel" where
  "DeleteSelectedRequest m =
     (if length (savedRequests m) > 0 then
        (let idx = list_Index (savedList m) in
         if idx < 0 \<or> int (length (savedRequests m)) < idx + 1 then Inl SliceBoundsOutOfRange
         else
           (let rs = take (nat idx) (savedRequests m) @ drop (nat idx + 1) (savedRequests m)
            in Inr (saveRequests
                 (m\<lparr>savedRequests := rs, savedList := list_SetItems (savedList m) rs\<rparr>))))
      else Inr m)"

definition FormatJSON :: "lib \<Rightarrow> string \<Rightarrow> string" where
  "FormatJSON L input =
     (if input = [] then []
      else (case json_Indent L input of None \<Rightarrow> input | Some formatted \<Rightarrow> formatted))"

fun digits :: "nat \<Rightarrow> string" where
  "digits n = (if n < 10 then [char_of (48 + n)]
               else digits (n div 10) @ [char_of (48 + n mod 10)])"

declare digits.simps [simp del]

text \<open>The verb \<^verbatim>\<open>%d\<close> of \<^verbatim>\<open>fmt.Sprintf\<close>.\<close>

definition fmt_d :: "int \<Rightarrow> string" where
  "fmt_d i = (if i < 0 then CHR ''-'' # digits (nat (- i)) else digits (nat i))"

definition SetResponseData :: "lib \<Rightarrow> AppModel \<Rightarrow> ResponseData \<Rightarrow> AppModel" where
  "SetResponseData L m data =
     (let r = FormatJSON L (ResponseData.Body data) in
      m\<lparr>loading := False,
        response := r,
        status := Status data @ '' ('' @ fmt_d (StatusCode data) @ '')'',
        responseTime := Time data,
        responseVP := viewport_SetContent (responseVP m) r,
        errorMsg := [],
        activeTab := TabResponse\<rparr>)"

definition SetError :: "AppModel \<Rightarrow> ErrorData \<Rightarrow> AppModel" where
  "SetError m err =
     m\<lparr>loading := False,
       errorMsg := Message err,
       response := [],
       status := ''Error'',
       responseTime := [],
       responseVP := viewport_SetContent (responseVP m) (Message err),
       activeTab := TabResponse\<rparr>"

definition GetCurrentMethod :: "AppModel \<Rightarrow> panic + string" where
  "GetCurrentMethod m =
     (if 0 \<le> selectedMethod m \<and> selectedMethod m < int (length MethodNames)
      then Inr (MethodNames ! nat (selectedMethod m)) else Inl IndexOutOfRange)"

definition AddParam :: "AppModel \<Rightarrow> string \<Rightarrow> string \<Rightarrow> AppModel" where
  "AddParam m key val =
     (let (M, s) = go_append zeroParam (paramMem m) (params m) (Param key val)
      in m\<lparr>params := s, paramMem := M\<rparr>)"

definition RemoveLastParam :: "AppModel \<Rightarrow> AppModel" where
  "RemoveLastParam m =
     (if len (params m) > 0 then m\<lparr>params := (params m)\<lparr>len := len (params m) - 1\<rparr>\<rparr> else m)"

definition AddHeader :: "AppModel \<Rightarrow> string \<Rightarrow> string \<Rightarrow> AppModel" where
  "AddHeader m key val =
     (let (M, s) = go_append zeroHeader (headerMem m) (headers m) (Header key val)
      in m\<lparr>headers := s, headerMem := M\<rparr>)"

definition RemoveLastHeader :: "AppModel \<Rightarrow> AppModel" where
  "RemoveLastHeader m =
     (if len (headers m) > 0 then m\<lparr>headers := (headers m)\<lparr>len := len (headers m) - 1\<rparr>\<rparr> else m)"

definition UpdateDimensions :: "lib \<Rightarrow> AppModel \<Rightarrow> int \<Rightarrow> int \<Rightarrow> AppModel" where
  "UpdateDimensions L m w h =
     (let contentHeight = (if h - 5 < 10 then 10 else h - 5);
          contentWidth = w - 4;
          occupiedHeight = int (len (headers m)) + int (len (params m)) + 17;
          bodyHeight = (if contentHeight - occupiedHeight < 3 then 3
                        else contentHeight - occupiedHeight)
      in m\<lparr>width := w, height := h,
           responseVP := (responseVP m)\<lparr>vp_Width := contentWidth, vp_Height := contentHeight\<rparr>,
           savedList := list_SetSize L (savedList m) contentWidth contentHeight,
           urlInput := (urlInput m)\<lparr>ti_Width := contentWidth - 14\<rparr>,
           paramInput := (paramInput m)\<lparr>ti_Width := contentWidth - 14\<rparr>,
           headerInput := (headerInput m)\<lparr>ti_Width := contentWidth - 14\<rparr>,
           bodyInput := textarea_SetHeight L
                          (textarea_SetWidth L (bodyInput m) (contentWidth - 14 - 2)) bodyHeight,
           saveNameInput := (saveNameInput m)\<lparr>ti_Width := contentWidth - 20\<rparr>\<rparr>)"

subsection \<open>Loading the presets file and creating the model\<close>

text \<open>
  \<^verbatim>\<open>json.Unmarshal\<close> builds every non-empty slice in a fresh array; the capacity it
  leaves beyond the length is the decoder's choice (\<open>json_cap\<close>).
\<close>

definition decode_slice :: "'a \<Rightarrow> nat \<Rightarrow> 'a mem \<Rightarrow> 'a list \<Rightarrow> 'a mem \<times> slice" where
  "decode_slice z c M xs = (if xs = [] then (M, empty_slice) else go_alloc z M xs c)"

fun decodeRequests ::
  "lib \<Rightarrow> Header mem \<Rightarrow> Param mem \<Rightarrow> PresetJSON list
     \<Rightarrow> Header mem \<times> Param mem \<times> SavedRequest list" where
  "decodeRequests L H P [] = (H, P, [])"
| "decodeRequests L H P (j # js) =
     (let (H1, hs) = decode_slice zeroHeader (json_cap L (length (j_headers j))) H (j_headers j);
          (P1, ps) = decode_slice zeroParam (json_cap L (length (j_params j))) P (j_params j);
          (H2, P2, rs) = decodeRequests L H1 P1 js
      in (H2, P2,
          \<lparr>Name = j_name j, Method = j_method j, URL = j_url j, Body = j_body j,
           Headers = hs, Params = ps\<rparr> # rs))"

text \<open>
  \<open>file\<close> is what reading and decoding the file at \<open>configPath\<close> gives: \<open>None\<close>
  when the file is missing, unreadable or not a JSON list of presets.
\<close>

definition loadRequests :: "lib \<Rightarrow> AppModel \<Rightarrow> PresetJSON list option \<Rightarrow> AppModel" where
  "loadRequests L m file =
     (case file of
        None \<Rightarrow> m
      | Some js \<Rightarrow>
          (let (H, P, rs) = decodeRequests L (headerMem m) (paramMem m) js
           in m\<lparr>headerMem := H, paramMem := P, savedRequests := rs,
                 savedList := list_SetItems (savedList m) rs\<rparr>))"

text \<open>
  \<open>g\<close> is the growth policy of the runtime, \<open>path\<close> the result of
  \<^verbatim>\<open>getConfigPath\<close>.
\<close>

definition NewAppModel ::
  "lib \<Rightarrow> (nat \<Rightarrow> nat) \<Rightarrow> string \<Rightarrow> PresetJSON list option \<Rightarrow> AppModel" where
  "NewAppModel L g path file =
     (let (H, hs) = go_alloc zeroHeader (empty_mem g)
                      [Header ''Content-Type'' ''application/json''] 0
      in loadRequests L
           \<lparr>urlInput = textinput_New,
            bodyInput = textarea_New,
            responseVP = viewport_New 10 10,
            paramInput = textinput_New,
            headerInput = textinput_New,
            savedList = list_New [],
            saveNameInput = textinput_New,
            params = empty_slice,
            headers = hs,
            savedRequests = [],
            configPath = path,
            activeTab = TabRequest,
            activeSection = SectionMethod,
            selectedMethod = MethodGET,
            loading = False,
            response = [],
            status = [],
            responseTime = [],
            errorMsg = [],
            inputMode = False,
            isSaving = False,
            isDeleting = False,
            width = 0,
            height = 0,
            headerMem = H,
            paramMem = empty_mem g,
            fileWrites = []\<rparr>
           file)"


section \<open>httpclient\<close>

text \<open>\<^verbatim>\<open>Body\<close> is a byte slice, nil when the body text is empty; it is its bytes here.\<close>

record HTTPRequest =
  Method :: string
  URL :: string
  Headers :: slice
  Params :: slice
  Body :: string

definition NewHTTPRequest :: "AppModel \<Rightarrow> panic + HTTPRequest" where
  "NewHTTPRequest model =
     (let bodyBytes = (if textarea_Value (bodyInput model) \<noteq> []
                       then textarea_Value (bodyInput model) else [])
      in case GetCurrentMethod model of
           Inl e \<Rightarrow> Inl e
         | Inr name \<Rightarrow>
             Inr \<lparr>Method = name,
                  URL = textinput_Value (urlInput model),
                  Headers = headers model,
                  Params = params model,
                  Body = bodyBytes\<rparr>)"

section \<open>events: the key handlers\<close>

text \<open>
  A key message is used through \<^verbatim>\<open>msg.String()\<close> only, so the handlers take that
  string. Each returns the model, the command (\<open>None\<close> for nil) and the flag telling the
  caller that the key was consumed.
\<close>

definition updateFocus :: "AppModel \<Rightarrow> AppModel" where
  "updateFocus model =
     (let m = model\<lparr>urlInput := textinput_Blur (urlInput model),
                    headerInput := textinput_Blur (headerInput model),
                    bodyInput := textarea_Blur (bodyInput model),
                    paramInput := textinput_Blur (paramInput model)\<rparr>
      in if inputMode m \<and> activeTab m = TabRequest then
           (if activeSection m = SectionURL then m\<lparr>urlInput := textinput_Focus (urlInput m)\<rparr>
            else if activeSection m = SectionHeaders
              then m\<lparr>headerInput := textinput_Focus (headerInput m)\<rparr>
            else if activeSection m = SectionBody
              then m\<lparr>bodyInput := textarea_Focus (bodyInput m)\<rparr>
            else if activeSection m = SectionParams
              then m\<lparr>paramInput := textinput_Focus (paramInput m)\<rparr>
            else m)
         else m)"

text \<open>
  \<^verbatim>\<open>sendRequest\<close> returns a closure and reads nothing from the model. The closure
  holds the pointer \<^verbatim>\<open>model\<close>, the one object that every later handler call mutates,
  and calls \<^verbatim>\<open>NewHTTPRequest(model)\<close> only when the runtime runs it: the request is
  built from the model as it is at that moment. \<open>sendRequest_run\<close> is the first statement
  of the closure's body, applied to the model at the time of the run; its result is what
  \<^verbatim>\<open>httpClient.SendRequest\<close> receives.
\<close>

definition sendRequest :: "AppModel \<Rightarrow> Cmd" where
  "sendRequest model = SendRequest"

definition sendRequest_run :: "AppModel \<Rightarrow> panic + HTTPRequest" where
  "sendRequest_run model_now = NewHTTPRequest model_now"

text \<open>\<^verbatim>\<open>strings.SplitN(s, "=", 2)\<close>.\<close>

definition SplitN2 :: "string \<Rightarrow> string list" where
  "SplitN2 s =
     (if CHR ''='' \<in> set s
      then [takeWhile (\<lambda>c. c \<noteq> CHR ''='') s, tl (dropWhile (\<lambda>c. c \<noteq> CHR ''='') s)]
      else [s])"

definition handleEnterOnRequestTab :: "AppModel \<Rightarrow> AppModel \<times> Cmd option" where
  "handleEnterOnRequestTab model =
     (if activeSection model = SectionHeaders then
        (if textinput_Value (headerInput model) \<noteq> [] then
           (case SplitN2 (textinput_Value (headerInput model)) of
              [k, v] \<Rightarrow>
                (let m = AddHeader model k v
                 in (m\<lparr>headerInput := textinput_SetValue (headerInput m) []\<rparr>, None))
            | _ \<Rightarrow> (model, None))
         else (model, None))
      else if activeSection model = SectionParams then
        (if textinput_Value (paramInput model) \<noteq> [] then
           (case SplitN2 (textinput_Value (paramInput model)) of
              [k, v] \<Rightarrow>
                (let m = AddParam model k v
                 in (m\<lparr>paramInput := textinput_SetValue (paramInput m) []\<rparr>, None))
            | _ \<Rightarrow> (model, None))
         else (model, None))
      else
        (if textinput_Value (urlInput model) \<noteq> []
         then (model\<lparr>loading := True\<rparr>, Some (sendRequest (model\<lparr>loading := True\<rparr>)))
         else (model, None)))"

definition handleEnterKey :: "AppModel \<Rightarrow> AppModel \<times> Cmd option" where
  "handleEnterKey model =
     (if activeTab model = TabRequest then handleEnterOnRequestTab model
      else if activeTab model = TabSaved then (LoadRequestFromSaved model, None)
      else (model, None))"

definition handleBackspaceKey :: "AppModel \<Rightarrow> AppModel \<times> Cmd option" where
  "handleBackspaceKey model =
     (if activeTab model \<noteq> TabRequest then (model, None)
      else if activeSection model = SectionHeaders then
        (if len (headers model) > 0 \<and> textinput_Value (headerInput model) = []
         then (RemoveLastHeader model, None) else (model, None))
      else if activeSection model = SectionParams then
        (if len (params model) > 0 \<and> textinput_Value (paramInput model) = []
         then (RemoveLastParam model, None) else (model, None))
      else (model, None))"

definition handleNavigationMode ::
  "lib \<Rightarrow> AppModel \<Rightarrow> string \<Rightarrow> AppModel \<times> Cmd option \<times> bool" where
  "handleNavigationMode L model k =
     (if k = ''ctrl+c'' \<or> k = ''q'' then (model, Some Quit, True)
      else if k = ''i'' \<or> k = ''a'' then (updateFocus (model\<lparr>inputMode := True\<rparr>), None, True)
      else if k = ''ctrl+s'' then
        ((if activeTab model = TabRequest
          then model\<lparr>isSaving := True,
                     saveNameInput := textinput_Focus (saveNameInput model)\<rparr>
          else model), None, True)
      else if k = ''left'' \<or> k = ''h'' then
        ((if activeTab model = TabRequest \<and> activeSection model = SectionMethod
          then model\<lparr>selectedMethod :=
                 (selectedMethod model - 1 + int (length MethodNames)) smod int (length MethodNames)\<rparr>
          else model\<lparr>activeTab := (activeTab model - 1 + 3) smod 3\<rparr>), None, True)
      else if k = ''right'' \<or> k = ''l'' then
        ((if activeTab model = TabRequest \<and> activeSection model = SectionMethod
          then model\<lparr>selectedMethod := (selectedMethod model + 1) smod int (length MethodNames)\<rparr>
          else model\<lparr>activeTab := (activeTab model + 1) smod 3\<rparr>), None, True)
      else if k = ''k'' \<or> k = ''up'' then
        ((if activeTab model = TabRequest
            then updateFocus (model\<lparr>activeSection := (activeSection model + 4) smod 5\<rparr>)
          else if activeTab model = TabSaved
            then model\<lparr>savedList := list_Update L (savedList model) (KeyMsg k)\<rparr>
          else model), None, True)
      else if k = ''j'' \<or> k = ''down'' then
        ((if activeTab model = TabRequest
            then updateFocus (model\<lparr>activeSection := (activeSection model + 1) smod 5\<rparr>)
          else if activeTab model = TabSaved
            then model\<lparr>savedList := list_Update L (savedList model) (KeyMsg k)\<rparr>
          else model), None, True)
      else if k = ''tab'' then
        ((if activeTab model = TabRequest
          then updateFocus (model\<lparr>activeSection := (activeSection model + 1) smod 5\<rparr>)
          else model), None, True)
      else if k = ''shift+tab'' then
        ((if activeTab model = TabRequest
          then updateFocus (model\<lparr>activeSection := (activeSection model + 4) smod 5\<rparr>)
          else model), None, True)
      else if k = ''1'' \<or> k = ''2'' \<or> k = ''3'' \<or> k = ''4'' \<or> k = ''5'' then
        ((if activeTab model = TabRequest
          then (let section = (if k = ''1'' then 0 else if k = ''2'' then 1
                               else if k = ''3'' then 2 else if k = ''4'' then 3
                               else if k = ''5'' then 4 else 0)
                in updateFocus (model\<lparr>activeSection := section\<rparr>))
          else model), None, True)
      else if k = ''d'' then
        ((if activeTab model = TabSaved then model\<lparr>isDeleting := True\<rparr> else model), None, True)
      else if k = ''enter'' then (let (m, cmd) = handleEnterKey model in (m, cmd, True))
      else if k = ''backspace'' then (let (m, cmd) = handleBackspaceKey model in (m, cmd, True))
      else (model, None, False))"

definition handleInputMode :: "AppModel \<Rightarrow> string \<Rightarrow> AppModel \<times> Cmd option \<times> bool" where
  "handleInputMode model k =
     (if k = ''esc'' then (updateFocus (model\<lparr>inputMode := False\<rparr>), None, True)
      else if k = ''ctrl+c'' \<or> k = ''q'' then
        (if activeSection model \<noteq> SectionBody then (model, Some Quit, True)
         else (model, None, False))
      else if k = ''enter'' then
        (if activeSection model = SectionHeaders \<or> activeSection model = SectionParams
         then (let (m, cmd) = handleEnterOnRequestTab model in (m, cmd, True))
         else (model, None, False))
      else (model, None, False))"

definition handleSaveAsPrompt ::
  "lib \<Rightarrow> AppModel \<Rightarrow> string \<Rightarrow> AppModel \<times> Cmd option \<times> bool" where
  "handleSaveAsPrompt L model k =
     (let m =
        (if k = ''enter'' then
           (let name = textinput_Value (saveNameInput model);
                m1 = (if name \<noteq> [] then AddNewSavedRequest model name else model)
            in m1\<lparr>saveNameInput := textinput_Blur (textinput_SetValue (saveNameInput m1) []),
                  isSaving := False\<rparr>)
         else if k = ''esc'' then
           model\<lparr>saveNameInput := textinput_Blur (textinput_SetValue (saveNameInput model) []),
                 isSaving := False\<rparr>
         else model)
      in (m\<lparr>saveNameInput := textinput_Update L (saveNameInput m) (KeyMsg k)\<rparr>, None, True))"

text \<open>
  \<^verbatim>\<open>strings.ToLower\<close> on the bytes of the string: the ASCII capitals are mapped, every
  other byte is kept. The only non-ASCII letters that Go lowers to an ASCII letter are
  U+0130 (to \<open>i\<close>) and U+212A (to \<open>k\<close>); neither occurs in the strings compared with.
\<close>

definition ToLower :: "string \<Rightarrow> string" where
  "ToLower s =
     map (\<lambda>c. if 65 \<le> (of_char c :: nat) \<and> (of_char c :: nat) \<le> 90
              then char_of ((of_char c :: nat) + 32) else c) s"

definition handleDeleteConfirmation ::
  "AppModel \<Rightarrow> string \<Rightarrow> panic + AppModel \<times> Cmd option \<times> bool" where
  "handleDeleteConfirmation model k =
     (if ToLower k = ''y'' then
        (case DeleteSelectedRequest model of
           Inl e \<Rightarrow> Inl e
         | Inr m \<Rightarrow> Inr (m\<lparr>isDeleting := False\<rparr>, None, True))
      else if ToLower k = ''n'' \<or> ToLower k = ''esc''
        then Inr (model\<lparr>isDeleting := False\<rparr>, None, True)
      else Inr (model, None, True))"

definition HandleKeyEvent ::
  "lib \<Rightarrow> AppModel \<Rightarrow> string \<Rightarrow> panic + AppModel \<times> Cmd option \<times> bool" where
  "HandleKeyEvent L model k =
     (if isSaving model then Inr (handleSaveAsPrompt L model k)
      else if isDeleting model then handleDeleteConfirmation model k
      else if \<not> inputMode model then Inr (handleNavigationMode L model k)
      else Inr (handleInputMode model k))"

definition UpdateComponents :: "lib \<Rightarrow> AppModel \<Rightarrow> Msg \<Rightarrow> AppModel" where
  "UpdateComponents L model msg =
     (if activeTab model = TabRequest then
        (if inputMode model then
           (if activeSection model = SectionURL
              then model\<lparr>urlInput := textinput_Update L (urlInput model) msg\<rparr>
            else if activeSection model = SectionHeaders
              then model\<lparr>headerInput := textinput_Update L (headerInput model) msg\<rparr>
            else if activeSection model = SectionBody
              then model\<lparr>bodyInput := textarea_Update L (bodyInput model) msg\<rparr>
            else if activeSection model = SectionParams
              then model\<lparr>paramInput := textinput_Update L (paramInput model) msg\<rparr>
            else model)
         else model)
      else if activeTab model = TabResponse
        then model\<lparr>responseVP := viewport_Update L (responseVP model) msg\<rparr>
      else if activeTab model = TabSaved
        then model\<lparr>savedList := list_Update L (savedList model) msg\<rparr>
      else model)"


section \<open>Example states\<close>

text \<open>
  A library whose widgets ignore every message, and the model the program starts with when
  there is no presets file. The concrete instances below are built from them.
\<close>

definition example_lib :: lib where
  "example_lib =
     \<lparr>textinput_Update = (\<lambda>t _. t), textarea_Update = (\<lambda>t _. t),
      viewport_Update = (\<lambda>v _. v), list_Update = (\<lambda>l _. l),
      textarea_SetWidth = (\<lambda>t _. t), textarea_SetHeight = (\<lambda>t _. t),
      list_SetSize = (\<lambda>l _ _. l), json_Indent = (\<lambda>_. None), json_cap = (\<lambda>n. n)\<rparr>"

definition fresh :: AppModel where
  "fresh = NewAppModel example_lib (\<lambda>n. 2 * n) ''requests.json'' None"

text \<open>The user has typed \<open>s\<close> into the header, parameter, URL or name field.\<close>

definition typed_header :: "AppModel \<Rightarrow> string \<Rightarrow> AppModel" where
  "typed_header m s = m\<lparr>headerInput := (headerInput m)\<lparr>ti_value := s\<rparr>\<rparr>"

definition typed_param :: "AppModel \<Rightarrow> string \<Rightarrow> AppModel" where
  "typed_param m s = m\<lparr>paramInput := (paramInput m)\<lparr>ti_value := s\<rparr>\<rparr>"

definition typed_url :: "AppModel \<Rightarrow> string \<Rightarrow> AppModel" where
  "typed_url m s = m\<lparr>urlInput := (urlInput m)\<lparr>ti_value := s\<rparr>\<rparr>"

definition typed_name :: "AppModel \<Rightarrow> string \<Rightarrow> AppModel" where
  "typed_name m s = m\<lparr>saveNameInput := (saveNameInput m)\<lparr>ti_value := s\<rparr>\<rparr>"

text \<open>
  What the user does, step by step: a key press, handled by \<open>HandleKeyEvent\<close>, or text
  typed into one of the fields. A panic ends the run.
\<close>

datatype action =
    Key string
  | TypeHeader string
  | TypeParam string
  | TypeURL string
  | TypeName string

fun act :: "lib \<Rightarrow> AppModel \<Rightarrow> action \<Rightarrow> panic + AppModel" where
  "act L m (Key k) = (case HandleKeyEvent L m k of Inl e \<Rightarrow> Inl e | Inr (m', _, _) \<Rightarrow> Inr m')"
| "act L m (TypeHeader s) = Inr (typed_header m s)"
| "act L m (TypeParam s) = Inr (typed_param m s)"
| "act L m (TypeURL s) = Inr (typed_url m s)"
| "act L m (TypeName s) = Inr (typed_name m s)"

fun run :: "lib \<Rightarrow> AppModel \<Rightarrow> action list \<Rightarrow> panic + AppModel" where
  "run L m [] = Inr m"
| "run L m (a # as) = (case act L m a of Inl e \<Rightarrow> Inl e | Inr m' \<Rightarrow> run L m' as)"

text \<open>The contents of the draft's header list and parameter list.\<close>

definition draft_headers :: "AppModel \<Rightarrow> Header list" where
  "draft_headers m = slice_view (headerMem m) (headers m)"

definition draft_params :: "AppModel \<Rightarrow> Param list" where
  "draft_params m = slice_view (paramMem m) (params m)"

text \<open>
  The states the program can be in. The top-level loop of this variant is not among the
  sources; the loop of its sibling calls \<open>HandleKeyEvent\<close>, \<open>SetResponseData\<close>,
  \<open>SetError\<close>, \<open>UpdateDimensions\<close> and \<open>UpdateComponents\<close> on the model made by
  \<open>NewAppModel\<close>, and nothing else. Here they may follow one another in any order.
\<close>

inductive reachable :: "lib \<Rightarrow> AppModel \<Rightarrow> bool" for L :: lib where
  init: "reachable L (NewAppModel L g path file)"
| key: "reachable L m \<Longrightarrow> HandleKeyEvent L m k = Inr (m', c, b) \<Longrightarrow> reachable L m'"
| response: "reachable L m \<Longrightarrow> reachable L (SetResponseData L m d)"
| error: "reachable L m \<Longrightarrow> reachable L (SetError m e)"
| resize: "reachable L m \<Longrightarrow> reachable L (UpdateDimensions L m w h)"
| components: "reachable L m \<Longrightarrow> reachable L (UpdateComponents L m msg)"

text \<open>The fresh model after \<open>ctrl+s\<close>: the save prompt is open.\<close>

definition saving_state :: AppModel where
  "saving_state = fresh\<lparr>isSaving := True, saveNameInput := textinput_Focus (saveNameInput fresh)\<rparr>"

text \<open>The fresh model after the keys \<open>3\<close> and \<open>l\<close>: Headers section, Response tab.\<close>

definition backspace_state :: AppModel where
  "backspace_state = fresh\<lparr>activeTab := TabResponse, activeSection := SectionHeaders\<rparr>"



text \<open>The fresh model after \<open>2\<close>, \<open>h\<close> and \<open>d\<close>: the delete confirmation is open.\<close>

definition deleting_state :: AppModel where
  "deleting_state = fresh\<lparr>activeTab := TabSaved, activeSection := SectionURL, isDeleting := True\<rparr>"

text \<open>Two presets saved from the fresh draft, the second one under the cursor.\<close>

definition demo_preset :: SavedRequest where
  "demo_preset = \<lparr>Name = ''Demo'', Method = MethodGET, URL = [], Body = [],
                   Headers = headers fresh, Params = params fresh\<rparr>"

definition other_preset :: SavedRequest where
  "other_preset = \<lparr>Name = ''Other'', Method = 1, URL = ''http://x/y'', Body = [],
                   Headers = headers fresh, Params = params fresh\<rparr>"

definition confirm_state :: AppModel where
  "confirm_state =
     fresh\<lparr>savedRequests := [demo_preset, other_preset],
           savedList := \<lparr>l_items = [demo_preset, other_preset], l_index = 1\<rparr>,
           activeTab := TabSaved, isDeleting := True\<rparr>"

text \<open>
  The fresh model with a URL typed, after Enter has dispatched the send.
\<close>

definition sent_state :: AppModel where
  "sent_state = (typed_url fresh ''http://x/y'')\<lparr>loading := True\<rparr>"

text \<open>
  The header list of the draft at the end of a run, and the header lists of the saved
  presets as they are in memory then.
\<close>

definition headers_of :: "panic + AppModel \<Rightarrow> Header list option" where
  "headers_of r = (case r of Inl _ \<Rightarrow> None | Inr m \<Rightarrow> Some (draft_headers m))"

definition saved_headers_of :: "panic + AppModel \<Rightarrow> Header list list option" where
  "saved_headers_of r =
     (case r of Inl _ \<Rightarrow> None
      | Inr m \<Rightarrow> Some (map (\<lambda>p. slice_view (headerMem m) (SavedRequest.Headers p)) (savedRequests m)))"

text \<open>
  A library whose text inputs take a one-character key when they have the focus, and whose
  list moves its cursor on \<open>j\<close>/\<open>down\<close> and \<open>k\<close>/\<open>up\<close> within its items.
\<close>

definition typing_lib :: lib where
  "typing_lib =
     example_lib
       \<lparr>textinput_Update :=
          (\<lambda>t msg. case msg of
                      KeyMsg [c] \<Rightarrow> (if ti_focus t then t\<lparr>ti_value := ti_value t @ [c]\<rparr> else t)
                    | _ \<Rightarrow> t),
        list_Update :=
          (\<lambda>l msg. case msg of
                      KeyMsg k \<Rightarrow>
                        (if k = ''j'' \<or> k = ''down'' then
                           (if l_index l + 1 < int (length (l_items l))
                            then l\<lparr>l_index := l_index l + 1\<rparr> else l)
                         else if k = ''k'' \<or> k = ''up'' then
                           (if 0 < l_index l then l\<lparr>l_index := l_index l - 1\<rparr> else l)
                         else l)
                    | _ \<Rightarrow> l)\<rparr>"

text \<open>
  The preset that saving the fresh draft under the name \<open>n\<close> makes, and what is written
  to the file for it.
\<close>

definition preset_named :: "string \<Rightarrow> SavedRequest" where
  "preset_named n = \<lparr>Name = n, Method = MethodGET, URL = [], Body = [],
                      Headers = headers fresh, Params = params fresh\<rparr>"

definition json_named :: "string \<Rightarrow> PresetJSON" where
  "json_named n = \<lparr>j_name = n, j_method = MethodGET, j_url = [], j_body = [],
                    j_headers = [Header ''Content-Type'' ''application/json''], j_params = []\<rparr>"

text \<open>
  Presets \<open>A\<close> and \<open>B\<close> were saved, the cursor was moved to \<open>B\<close>, \<open>B\<close> was
  deleted, and \<open>d\<close> was pressed again: the delete confirmation is open, one preset is
  left, and the cursor of the list is still 1.
\<close>

definition stale_state :: AppModel where
  "stale_state =
     fresh\<lparr>savedRequests := [preset_named ''A''],
           savedList := \<lparr>l_items = [preset_named ''A''], l_index = 1\<rparr>,
           fileWrites := [(''requests.json'', [json_named ''A'']),
                          (''requests.json'', [json_named ''A'', json_named ''B'']),
                          (''requests.json'', [json_named ''A''])],
           activeTab := TabSaved, activeSection := SectionURL, isDeleting := True\<rparr>"

text \<open>
  The delete confirmation is open while the list shows only the second of two presets (the
  widget narrows its items when a filter is typed), with the cursor on it.
\<close>

definition narrowed_state :: AppModel where
  "narrowed_state =
     fresh\<lparr>savedRequests := [demo_preset, other_preset],
           savedList := \<lparr>l_items = [other_preset], l_index = 0\<rparr>,
           activeTab := TabSaved, isDeleting := True\<rparr>"




section \<open>Slices\<close>

lemma go_alloc_view:
  "go_alloc z M xs c = (M', s') \<Longrightarrow> slice_view M' s' = xs"
  by (auto simp: go_alloc_def slice_view_def Let_def)

lemma go_append_view:
  assumes "len s \<le> cap s" "cap s \<le> length (cells M (ptr s))" "go_append z M s x = (M', s')"
  shows "slice_view M' s' = slice_view M s @ [x]"
proof (cases "len s < cap s")
  case True
  with assms(2) have "len s < length (cells M (ptr s))" by simp
  then have "take (Suc (len s)) ((cells M (ptr s))[len s := x]) = take (len s) (cells M (ptr s)) @ [x]"
    by (simp add: take_Suc_conv_app_nth)
  with True assms(3) show ?thesis
    by (auto simp: go_append_def slice_view_def)
next
  case False
  with assms(3) have "go_alloc z M (slice_view M s @ [x]) (growcap M (cap s)) = (M', s')"
    by (simp add: go_append_def)
  then show ?thesis by (rule go_alloc_view)
qed

lemma go_append_ok:
  assumes "slice_ok M s" "go_append z M s x = (M', s')"
  shows "slice_ok M' s'"
proof (cases "len s < cap s")
  case True
  with assms show ?thesis by (auto simp: go_append_def slice_ok_def)
next
  case False
  with assms show ?thesis by (auto simp: go_append_def go_alloc_def slice_ok_def Let_def)
qed

lemma AddHeader_ok:
  "slice_ok (headerMem m) (headers m) \<Longrightarrow>
   slice_ok (headerMem (AddHeader m k v)) (headers (AddHeader m k v))"
  by (auto simp: AddHeader_def split: prod.splits dest: go_append_ok)

lemma AddParam_ok:
  "slice_ok (paramMem m) (params m) \<Longrightarrow>
   slice_ok (paramMem (AddParam m k v)) (params (AddParam m k v))"
  by (auto simp: AddParam_def split: prod.splits dest: go_append_ok)

lemma RemoveLast_ok:
  "slice_ok (headerMem m) (headers m) \<Longrightarrow>
   slice_ok (headerMem (RemoveLastHeader m)) (headers (RemoveLastHeader m))"
  "slice_ok (paramMem m) (params m) \<Longrightarrow>
   slice_ok (paramMem (RemoveLastParam m)) (params (RemoveLastParam m))"
  by (auto simp: RemoveLastHeader_def RemoveLastParam_def slice_ok_def)

section \<open>Enter and Backspace on the Request tab\<close>

lemma SplitN2_cut:
  assumes "CHR ''='' \<notin> set k"
  shows "SplitN2 (k @ CHR ''='' # v) = [k, v]"
proof -
  from assms have k: "\<And>c. c \<in> set k \<Longrightarrow> c \<noteq> CHR ''=''" by auto
  have "takeWhile (\<lambda>c. c \<noteq> CHR ''='') (k @ CHR ''='' # v) = k"
    using k by simp
  moreover have "dropWhile (\<lambda>c. c \<noteq> CHR ''='') (k @ CHR ''='' # v) = CHR ''='' # v"
    using k by simp
  ultimately show ?thesis by (simp add: SplitN2_def)
qed

lemma SplitN2_none: "CHR ''='' \<notin> set s \<Longrightarrow> SplitN2 s = [s]"
  by (simp add: SplitN2_def)

lemma AddHeader_view:
  "slice_ok (headerMem m) (headers m) \<Longrightarrow>
   slice_view (headerMem (AddHeader m k v)) (headers (AddHeader m k v)) =
     slice_view (headerMem m) (headers m) @ [Header k v]"
  by (auto simp: AddHeader_def slice_ok_def split: prod.splits dest: go_append_view)

lemma AddParam_view:
  "slice_ok (paramMem m) (params m) \<Longrightarrow>
   slice_view (paramMem (AddParam m k v)) (params (AddParam m k v)) =
     slice_view (paramMem m) (params m) @ [Param k v]"
  by (auto simp: AddParam_def slice_ok_def split: prod.splits dest: go_append_view)

lemma enter_headers_cut:
  assumes "activeSection m = SectionHeaders" "textinput_Value (headerInput m) = k @ CHR ''='' # v"
    "CHR ''='' \<notin> set k"
  shows "handleEnterOnRequestTab m =
    ((AddHeader m k v)\<lparr>headerInput := textinput_SetValue (headerInput (AddHeader m k v)) []\<rparr>, None)"
  using assms by (simp add: handleEnterOnRequestTab_def SplitN2_cut Let_def)

lemma enter_params_cut:
  assumes "activeSection m = SectionParams" "textinput_Value (paramInput m) = k @ CHR ''='' # v"
    "CHR ''='' \<notin> set k"
  shows "handleEnterOnRequestTab m =
    ((AddParam m k v)\<lparr>paramInput := textinput_SetValue (paramInput (AddParam m k v)) []\<rparr>, None)"
  using assms by (simp add: handleEnterOnRequestTab_def SplitN2_cut Let_def)

text \<open>
  The Enter action itself, \<open>handleEnterOnRequestTab\<close>, in the Headers and in the Params
  section: a buffer \<open>k=v\<close>, where \<open>k\<close> holds no \<open>=\<close>, is split at its first
  \<open>=\<close>, the entry is appended at the end of the list and the buffer is cleared; a buffer
  without \<open>=\<close> leaves the model as it was.
\<close>

lemma enter_action_appends_split_entry:
  "(activeSection m = SectionHeaders \<and> slice_ok (headerMem m) (headers m) \<and>
    textinput_Value (headerInput m) = k @ CHR ''='' # v \<and> CHR ''='' \<notin> set k \<longrightarrow>
      (\<exists>m'. handleEnterOnRequestTab m = (m', None) \<and>
         slice_view (headerMem m') (headers m') = slice_view (headerMem m) (headers m) @ [Header k v] \<and>
         textinput_Value (headerInput m') = [])) \<and>
   (activeSection m = SectionHeaders \<and> CHR ''='' \<notin> set (textinput_Value (headerInput m)) \<longrightarrow>
      handleEnterOnRequestTab m = (m, None)) \<and>
   (activeSection m = SectionParams \<and> slice_ok (paramMem m) (params m) \<and>
    textinput_Value (paramInput m) = k @ CHR ''='' # v \<and> CHR ''='' \<notin> set k \<longrightarrow>
      (\<exists>m'. handleEnterOnRequestTab m = (m', None) \<and>
         slice_view (paramMem m') (params m') = slice_view (paramMem m) (params m) @ [Param k v] \<and>
         textinput_Value (paramInput m') = [])) \<and>
   (activeSection m = SectionParams \<and> CHR ''='' \<notin> set (textinput_Value (paramInput m)) \<longrightarrow>
      handleEnterOnRequestTab m = (m, None))"
proof (intro conjI impI)
  assume a: "activeSection m = SectionHeaders \<and> slice_ok (headerMem m) (headers m) \<and>
    textinput_Value (headerInput m) = k @ CHR ''='' # v \<and> CHR ''='' \<notin> set k"
  then show "\<exists>m'. handleEnterOnRequestTab m = (m', None) \<and>
         slice_view (headerMem m') (headers m') = slice_view (headerMem m) (headers m) @ [Header k v] \<and>
         textinput_Value (headerInput m') = []"
    by (simp add: enter_headers_cut AddHeader_view textinput_Value_def textinput_SetValue_def)
next
  assume "activeSection m = SectionHeaders \<and> CHR ''='' \<notin> set (textinput_Value (headerInput m))"
  then show "handleEnterOnRequestTab m = (m, None)"
    by (simp add: handleEnterOnRequestTab_def SplitN2_none)
next
  assume a: "activeSection m = SectionParams \<and> slice_ok (paramMem m) (params m) \<and>
    textinput_Value (paramInput m) = k @ CHR ''='' # v \<and> CHR ''='' \<notin> set k"
  then show "\<exists>m'. handleEnterOnRequestTab m = (m', None) \<and>
         slice_view (paramMem m') (params m') = slice_view (paramMem m) (params m) @ [Param k v] \<and>
         textinput_Value (paramInput m') = []"
    by (simp add: enter_params_cut AddParam_view textinput_Value_def textinput_SetValue_def)
next
  assume "activeSection m = SectionParams \<and> CHR ''='' \<notin> set (textinput_Value (paramInput m))"
  then show "handleEnterOnRequestTab m = (m, None)"
    by (simp add: handleEnterOnRequestTab_def SplitN2_none)
qed


lemma fresh_simps:
  "headers fresh = \<lparr>ptr = 1, len = 1, cap = 1\<rparr>"
  "cells (headerMem fresh) (Suc 0) = [Header ''Content-Type'' ''application/json'']"
  "next_ptr (headerMem fresh) = 2"
  "params fresh = empty_slice"
  "next_ptr (paramMem fresh) = 1"
  "cells (paramMem fresh) 0 = []"
  "activeTab fresh = TabRequest"
  by (simp_all add: fresh_def NewAppModel_def loadRequests_def go_alloc_def empty_mem_def Let_def)



lemma fresh_fields:
  "\<not> isSaving fresh" "\<not> isDeleting fresh" "\<not> inputMode fresh"
  "activeSection fresh = SectionMethod"
  "ti_value (headerInput fresh) = []" "ti_value (paramInput fresh) = []"
  "ti_value (urlInput fresh) = []"
  "\<not> ti_focus (headerInput fresh)" "\<not> ti_focus (paramInput fresh)"
  "\<not> ti_focus (urlInput fresh)" "\<not> ta_focus (bodyInput fresh)"
  "selectedMethod fresh = MethodGET" "savedRequests fresh = []"
  by (simp_all add: fresh_def NewAppModel_def loadRequests_def go_alloc_def empty_mem_def Let_def
      textinput_New_def textarea_New_def)

lemma blur_fresh:
  "m = fresh \<Longrightarrow> m\<lparr>urlInput := textinput_Blur (urlInput m),
          headerInput := textinput_Blur (headerInput m),
          bodyInput := textarea_Blur (bodyInput m),
          paramInput := textinput_Blur (paramInput m)\<rparr> = m"
  by (simp add: textinput_Blur_def textarea_Blur_def fresh_fields)






section \<open>Folding a response or an error into the model\<close>

text \<open>
  Claim C7. Folding a response sets the formatted body, the status line and the elapsed
  time and clears the error message and the loading flag; folding an error sets the error
  message and clears the response body and the loading flag. After either fold the response
  body or the error message is empty, and loading is false.
\<close>

theorem fold_response_or_error:
  "response (SetResponseData L m d) = FormatJSON L (ResponseData.Body d) \<and>
   status (SetResponseData L m d) = Status d @ '' ('' @ fmt_d (StatusCode d) @ '')'' \<and>
   responseTime (SetResponseData L m d) = Time d \<and>
   errorMsg (SetResponseData L m d) = [] \<and>
   loading (SetResponseData L m d) = False \<and>
   errorMsg (SetError m e) = Message e \<and>
   response (SetError m e) = [] \<and>
   loading (SetError m e) = False \<and>
   (response (SetResponseData L m d) = [] \<or> errorMsg (SetResponseData L m d) = []) \<and>
   (response (SetError m e) = [] \<or> errorMsg (SetError m e) = [])"
  by (simp add: SetResponseData_def SetError_def Let_def)

theorem fold_response_or_error_witness:
  "errorMsg (SetError (SetResponseData example_lib fresh
       \<lparr>ResponseData.Body = ''{}'', Status = ''200 OK'', Time = ''12ms'', StatusCode = 200\<rparr>)
       \<lparr>Message = ''timeout''\<rparr>) = ''timeout'' \<and>
   response (SetError (SetResponseData example_lib fresh
       \<lparr>ResponseData.Body = ''{}'', Status = ''200 OK'', Time = ''12ms'', StatusCode = 200\<rparr>)
       \<lparr>Message = ''timeout''\<rparr>) = [] \<and>
   status (SetResponseData example_lib (SetError fresh \<lparr>Message = ''timeout''\<rparr>)
       \<lparr>ResponseData.Body = ''{}'', Status = ''200 OK'', Time = ''12ms'', StatusCode = 200\<rparr>) = ''200 OK (200)'' \<and>
   errorMsg (SetResponseData example_lib (SetError fresh \<lparr>Message = ''timeout''\<rparr>)
       \<lparr>ResponseData.Body = ''{}'', Status = ''200 OK'', Time = ''12ms'', StatusCode = 200\<rparr>) = []"
proof -
  have "fmt_d 200 = ''200''" by code_simp
  then show ?thesis
    using fold_response_or_error [of example_lib "SetError fresh \<lparr>Message = ''timeout''\<rparr>"
        "\<lparr>ResponseData.Body = ''{}'', Status = ''200 OK'', Time = ''12ms'', StatusCode = 200\<rparr>"]
      fold_response_or_error [of example_lib "SetResponseData example_lib fresh
       \<lparr>ResponseData.Body = ''{}'', Status = ''200 OK'', Time = ''12ms'', StatusCode = 200\<rparr>" _ "\<lparr>Message = ''timeout''\<rparr>"]
    by simp
qed

text \<open>
  Claim C9. Folding a response or an error makes the Response tab the active tab, whatever
  the tab was.
\<close>

theorem fold_switches_to_response_tab:
  "activeTab (SetResponseData L m d) = TabResponse \<and> activeTab (SetError m e) = TabResponse"
  by (simp add: SetResponseData_def SetError_def Let_def)

section \<open>Sending\<close>

text \<open>
  The Enter action with an empty URL field and a section other than Headers and Params
  active returns the model as it was and no command; so does the Enter key in navigation
  mode on the Request tab with no overlay open.
\<close>

lemma enter_action_empty_url_noop:
  "textinput_Value (urlInput m) = [] \<and>
   activeSection m \<noteq> SectionHeaders \<and> activeSection m \<noteq> SectionParams \<longrightarrow>
     handleEnterOnRequestTab m = (m, None) \<and>
     (\<not> isSaving m \<and> \<not> isDeleting m \<and> \<not> inputMode m \<and> activeTab m = TabRequest \<longrightarrow>
        HandleKeyEvent L m ''enter'' = Inr (m, None, True))"
  by (simp add: handleEnterOnRequestTab_def HandleKeyEvent_def handleNavigationMode_def
      handleEnterKey_def)

section \<open>The fresh model\<close>






lemma loadRequests_fields:
  "headers (loadRequests L m file) = headers m"
  "params (loadRequests L m file) = params m"
  "isSaving (loadRequests L m file) = isSaving m"
  "isDeleting (loadRequests L m file) = isDeleting m"
  "inputMode (loadRequests L m file) = inputMode m"
  "activeTab (loadRequests L m file) = activeTab m"
  "activeSection (loadRequests L m file) = activeSection m"
  "selectedMethod (loadRequests L m file) = selectedMethod m"
  "urlInput (loadRequests L m file) = urlInput m"
  "bodyInput (loadRequests L m file) = bodyInput m"
  "loading (loadRequests L m file) = loading m"
  by (simp_all add: loadRequests_def split: option.splits prod.splits)


lemma NewAppModel_fields:
  "headers (NewAppModel L g path file) = \<lparr>ptr = 1, len = 1, cap = 1\<rparr>"
  "\<not> isSaving (NewAppModel L g path file)"
  "\<not> isDeleting (NewAppModel L g path file)"
  "\<not> inputMode (NewAppModel L g path file)"
  "activeTab (NewAppModel L g path file) = TabRequest"
  "activeSection (NewAppModel L g path file) = SectionMethod"
  "selectedMethod (NewAppModel L g path file) = MethodGET"
  "\<not> loading (NewAppModel L g path file)"
  by (simp_all add: NewAppModel_def loadRequests_fields go_alloc_def empty_mem_def Let_def)





section \<open>The overlays\<close>

lemma saveRequests_flags:
  "isSaving (saveRequests m) = isSaving m" "isDeleting (saveRequests m) = isDeleting m"
  by (simp_all add: saveRequests_def)

lemma AddNewSavedRequest_flags:
  "isSaving (AddNewSavedRequest m n) = isSaving m"
  "isDeleting (AddNewSavedRequest m n) = isDeleting m"
  by (simp_all add: AddNewSavedRequest_def saveRequests_def Let_def)

lemma updateFocus_flags:
  "isSaving (updateFocus m) = isSaving m" "isDeleting (updateFocus m) = isDeleting m"
  by (simp_all add: updateFocus_def Let_def)

lemma handleEnterOnRequestTab_flags:
  "isSaving (fst (handleEnterOnRequestTab m)) = isSaving m"
  "isDeleting (fst (handleEnterOnRequestTab m)) = isDeleting m"
  by (simp_all add: handleEnterOnRequestTab_def AddHeader_def AddParam_def Let_def
      split: list.splits prod.splits)

lemma handleEnterKey_flags:
  "isSaving (fst (handleEnterKey m)) = isSaving m"
  "isDeleting (fst (handleEnterKey m)) = isDeleting m"
  by (simp_all add: handleEnterKey_def handleEnterOnRequestTab_flags LoadRequestFromSaved_def
      split: option.splits)

lemma handleBackspaceKey_flags:
  "isSaving (fst (handleBackspaceKey m)) = isSaving m"
  "isDeleting (fst (handleBackspaceKey m)) = isDeleting m"
  by (simp_all add: handleBackspaceKey_def RemoveLastHeader_def RemoveLastParam_def)

lemma handleNavigationMode_flags:
  assumes "\<not> isSaving m" "\<not> isDeleting m"
  shows "\<not> (isSaving (fst (handleNavigationMode L m k)) \<and> isDeleting (fst (handleNavigationMode L m k)))"
  using assms
  by (simp add: handleNavigationMode_def updateFocus_flags handleEnterKey_flags
      handleBackspaceKey_flags split_beta Let_def)

lemma handleInputMode_flags:
  "isSaving (fst (handleInputMode m k)) = isSaving m"
  "isDeleting (fst (handleInputMode m k)) = isDeleting m"
  by (simp_all add: handleInputMode_def updateFocus_flags handleEnterOnRequestTab_flags split_beta)

lemma handleSaveAsPrompt_flags:
  "isDeleting (fst (handleSaveAsPrompt L m k)) = isDeleting m"
  by (simp add: handleSaveAsPrompt_def AddNewSavedRequest_flags Let_def)

lemma handleSaveAsPrompt_consumed: "snd (snd (handleSaveAsPrompt L m k))"
  by (simp add: handleSaveAsPrompt_def Let_def)

lemma handleDeleteConfirmation_flags:
  "handleDeleteConfirmation m k = Inr (m', c, b) \<Longrightarrow> isSaving m' = isSaving m \<and> b \<and> c = None"
  by (auto simp: handleDeleteConfirmation_def DeleteSelectedRequest_def saveRequests_def Let_def
      split: if_splits sum.splits)

lemma HandleKeyEvent_exclusive:
  assumes "\<not> (isSaving m \<and> isDeleting m)" "HandleKeyEvent L m k = Inr (m', c, b)"
  shows "\<not> (isSaving m' \<and> isDeleting m')"
proof (cases "isSaving m")
  case True
  with assms have "m' = fst (handleSaveAsPrompt L m k)" "\<not> isDeleting m"
    by (auto simp: HandleKeyEvent_def)
  then show ?thesis by (simp add: handleSaveAsPrompt_flags)
next
  case False
  show ?thesis
  proof (cases "isDeleting m")
    case True
    with False assms(2) have "handleDeleteConfirmation m k = Inr (m', c, b)"
      by (simp add: HandleKeyEvent_def)
    with False show ?thesis by (auto dest: handleDeleteConfirmation_flags)
  next
    case nd: False
    show ?thesis
    proof (cases "inputMode m")
      case True
      with False nd assms(2) have "m' = fst (handleInputMode m k)"
        by (auto simp: HandleKeyEvent_def)
      with False show ?thesis by (simp add: handleInputMode_flags)
    next
      case ni: False
      with False nd assms(2) have "m' = fst (handleNavigationMode L m k)"
        by (auto simp: HandleKeyEvent_def)
      with False nd show ?thesis using handleNavigationMode_flags [of m L k] by simp
    qed
  qed
qed

lemma reachable_exclusive: "reachable L m \<Longrightarrow> \<not> (isSaving m \<and> isDeleting m)"
proof (induction rule: reachable.induct)
  case (init g path f)
  then show ?case by (simp add: NewAppModel_fields)
next
  case (key m k m' c b)
  then show ?case using HandleKeyEvent_exclusive by blast
next
  case (response m d)
  then show ?case by (simp add: SetResponseData_def Let_def)
next
  case (error m e)
  then show ?case by (simp add: SetError_def)
next
  case (resize m w h)
  then show ?case by (simp add: UpdateDimensions_def Let_def)
next
  case (components m msg)
  then show ?case by (simp add: UpdateComponents_def)
qed

text \<open>
  In every reachable state the save prompt and the delete confirmation are not both open.
  While the save prompt is open every key goes to \<open>handleSaveAsPrompt\<close> and is consumed;
  while the delete confirmation is open every key goes to \<open>handleDeleteConfirmation\<close>,
  which consumes it whenever it returns. It returns for every key unless the key is \<open>y\<close>
  and the list cursor lies outside a non-empty list.
\<close>

lemma overlay_routing:
  assumes "reachable L m"
  shows "\<not> (isSaving m \<and> isDeleting m) \<and>
    (isSaving m \<longrightarrow>
       HandleKeyEvent L m k = Inr (handleSaveAsPrompt L m k) \<and>
       snd (snd (handleSaveAsPrompt L m k))) \<and>
    (isDeleting m \<longrightarrow>
       HandleKeyEvent L m k = handleDeleteConfirmation m k \<and>
       (\<forall>m' c b. handleDeleteConfirmation m k = Inr (m', c, b) \<longrightarrow> b) \<and>
       (ToLower k \<noteq> ''y'' \<or> savedRequests m = [] \<or>
        (0 \<le> list_Index (savedList m) \<and> list_Index (savedList m) < int (length (savedRequests m)))
          \<longrightarrow> (\<exists>m'. handleDeleteConfirmation m k = Inr (m', None, True))))"
proof -
  from assms have ex: "\<not> (isSaving m \<and> isDeleting m)" by (rule reachable_exclusive)
  have a: "isSaving m \<longrightarrow> HandleKeyEvent L m k = Inr (handleSaveAsPrompt L m k) \<and>
       snd (snd (handleSaveAsPrompt L m k))"
    by (simp add: HandleKeyEvent_def handleSaveAsPrompt_consumed)
  have b: "isDeleting m \<longrightarrow> HandleKeyEvent L m k = handleDeleteConfirmation m k"
    using ex by (auto simp: HandleKeyEvent_def)
  have c: "\<forall>m' c b. handleDeleteConfirmation m k = Inr (m', c, b) \<longrightarrow> b"
    by (auto dest: handleDeleteConfirmation_flags)
  have d: "ToLower k \<noteq> ''y'' \<or> savedRequests m = [] \<or>
        (0 \<le> list_Index (savedList m) \<and> list_Index (savedList m) < int (length (savedRequests m)))
          \<longrightarrow> (\<exists>m'. handleDeleteConfirmation m k = Inr (m', None, True))"
    by (auto simp: handleDeleteConfirmation_def DeleteSelectedRequest_def Let_def)
  from ex a b c d show ?thesis by blast
qed


lemma reachable_fresh: "reachable example_lib fresh"
  unfolding fresh_def by (rule reachable.init)

lemma ctrl_s_fresh: "HandleKeyEvent example_lib fresh ''ctrl+s'' = Inr (saving_state, None, True)"
  by (simp add: HandleKeyEvent_def handleNavigationMode_def fresh_fields fresh_simps saving_state_def)

lemma reachable_saving_state: "reachable example_lib saving_state"
  using reachable_fresh ctrl_s_fresh by (rule reachable.key)

lemma reachable_deleting_state: "reachable example_lib deleting_state"
proof -
  have a: "HandleKeyEvent example_lib fresh ''2'' = Inr (fresh\<lparr>activeSection := SectionURL\<rparr>, None, True)"
    by (simp add: HandleKeyEvent_def handleNavigationMode_def updateFocus_def fresh_fields fresh_simps
        textinput_Blur_def textarea_Blur_def)
  have b: "HandleKeyEvent example_lib (fresh\<lparr>activeSection := SectionURL\<rparr>) ''h''
      = Inr (fresh\<lparr>activeSection := SectionURL, activeTab := TabSaved\<rparr>, None, True)"
    by (simp add: HandleKeyEvent_def handleNavigationMode_def fresh_fields fresh_simps
        signed_modulo_int_def)
  have c: "HandleKeyEvent example_lib (fresh\<lparr>activeSection := SectionURL, activeTab := TabSaved\<rparr>) ''d''
      = Inr (deleting_state, None, True)"
    by (simp add: HandleKeyEvent_def handleNavigationMode_def fresh_fields fresh_simps
        deleting_state_def)
  show ?thesis
    using reachable.key [OF reachable.key [OF reachable.key [OF reachable_fresh a] b] c] .
qed

section \<open>The delete confirmation\<close>

lemma lower_y:
  "(if 65 \<le> (of_char c :: nat) \<and> (of_char c :: nat) \<le> 90
    then char_of ((of_char c :: nat) + 32) else c) = CHR ''y'' \<longleftrightarrow> c = CHR ''y'' \<or> c = CHR ''Y''"
proof (cases "65 \<le> (of_char c :: nat) \<and> (of_char c :: nat) \<le> 90")
  case True
  then have "take_bit 8 ((of_char c :: nat) + 32) = of_char c + 32"
    by (simp add: take_bit_nat_eq_self_iff)
  then have "char_of ((of_char c :: nat) + 32) = CHR ''y'' \<longleftrightarrow> (of_char c :: nat) = 89"
    by (auto simp: char_of_eq_iff)
  moreover have "(of_char c :: nat) = 89 \<longleftrightarrow> c = CHR ''Y''"
  proof -
    have "(of_char CHR ''Y'' :: nat) = 89" by simp
    then have "(of_char c :: nat) = 89 \<longleftrightarrow> (of_char c :: nat) = of_char CHR ''Y''" by simp
    then show ?thesis by (simp only: of_char_eq_iff)
  qed
  ultimately show ?thesis using True by auto
next
  case False
  then show ?thesis by auto
qed

lemma ToLower_y: "ToLower k = ''y'' \<longleftrightarrow> k = ''y'' \<or> k = ''Y''"
proof (cases k)
  case Nil
  then show ?thesis by (simp add: ToLower_def)
next
  case (Cons c cs)
  then show ?thesis using lower_y [of c] by (auto simp: ToLower_def)
qed

text \<open>
  What the delete confirmation does when the list shows exactly the saved presets and its
  cursor points at one of them, or when there is no preset at all: \<open>y\<close> removes the
  preset under the cursor, hands the whole new list to the file write and closes the
  overlay; \<open>n\<close> and \<open>esc\<close> close the overlay; any other key changes nothing; every key
  is consumed.
\<close>

lemma delete_confirmation_cursor_on_preset:
  "(ToLower k = ''y'' \<and> l_items (savedList m) = savedRequests m \<and>
    0 \<le> list_Index (savedList m) \<and> list_Index (savedList m) < int (length (savedRequests m)) \<longrightarrow>
      (\<exists>m'. handleDeleteConfirmation m k = Inr (m', None, True) \<and>
         list_SelectedItem (savedList m) = Some (savedRequests m ! nat (list_Index (savedList m))) \<and>
         savedRequests m' = take (nat (list_Index (savedList m))) (savedRequests m)
                            @ drop (Suc (nat (list_Index (savedList m)))) (savedRequests m) \<and>
         l_items (savedList m') = savedRequests m' \<and>
         fileWrites m' = fileWrites m @ [(configPath m, map (toJSON m) (savedRequests m'))] \<and>
         \<not> isDeleting m' \<and> isSaving m' = isSaving m \<and> inputMode m' = inputMode m)) \<and>
   (ToLower k = ''y'' \<and> savedRequests m = [] \<longrightarrow>
      handleDeleteConfirmation m k = Inr (m\<lparr>isDeleting := False\<rparr>, None, True)) \<and>
   (ToLower k = ''n'' \<or> ToLower k = ''esc'' \<longrightarrow>
      handleDeleteConfirmation m k = Inr (m\<lparr>isDeleting := False\<rparr>, None, True)) \<and>
   (ToLower k \<noteq> ''y'' \<and> ToLower k \<noteq> ''n'' \<and> ToLower k \<noteq> ''esc'' \<longrightarrow>
      handleDeleteConfirmation m k = Inr (m, None, True))"
proof (intro conjI impI)
  assume a: "ToLower k = ''y'' \<and> l_items (savedList m) = savedRequests m \<and>
    0 \<le> list_Index (savedList m) \<and> list_Index (savedList m) < int (length (savedRequests m))"
  then have "DeleteSelectedRequest m =
      Inr (saveRequests (m\<lparr>savedRequests := take (nat (list_Index (savedList m))) (savedRequests m)
                            @ drop (Suc (nat (list_Index (savedList m)))) (savedRequests m),
                          savedList := list_SetItems (savedList m)
                            (take (nat (list_Index (savedList m))) (savedRequests m)
                            @ drop (Suc (nat (list_Index (savedList m)))) (savedRequests m))\<rparr>))"
    by (auto simp: DeleteSelectedRequest_def Let_def)
  with a show "\<exists>m'. handleDeleteConfirmation m k = Inr (m', None, True) \<and>
         list_SelectedItem (savedList m) = Some (savedRequests m ! nat (list_Index (savedList m))) \<and>
         savedRequests m' = take (nat (list_Index (savedList m))) (savedRequests m)
                            @ drop (Suc (nat (list_Index (savedList m)))) (savedRequests m) \<and>
         l_items (savedList m') = savedRequests m' \<and>
         fileWrites m' = fileWrites m @ [(configPath m, map (toJSON m) (savedRequests m'))] \<and>
         \<not> isDeleting m' \<and> isSaving m' = isSaving m \<and> inputMode m' = inputMode m"
    by (simp add: handleDeleteConfirmation_def saveRequests_def list_SelectedItem_def
        list_Index_def list_SetItems_def toJSON_def)
next
  assume "ToLower k = ''y'' \<and> savedRequests m = []"
  then show "handleDeleteConfirmation m k = Inr (m\<lparr>isDeleting := False\<rparr>, None, True)"
    by (simp add: handleDeleteConfirmation_def DeleteSelectedRequest_def)
next
  assume "ToLower k = ''n'' \<or> ToLower k = ''esc''"
  then show "handleDeleteConfirmation m k = Inr (m\<lparr>isDeleting := False\<rparr>, None, True)"
    by (auto simp: handleDeleteConfirmation_def)
next
  assume "ToLower k \<noteq> ''y'' \<and> ToLower k \<noteq> ''n'' \<and> ToLower k \<noteq> ''esc''"
  then show "handleDeleteConfirmation m k = Inr (m, None, True)"
    by (simp add: handleDeleteConfirmation_def)
qed

lemma lower_keys: "ToLower ''Y'' = ''y''" "ToLower ''N'' = ''n''" "ToLower ''Esc'' = ''esc''"
  "ToLower ''x'' = ''x''"
  by code_simp+

section \<open>Snapshots that share memory\<close>

lemmas key_defs = HandleKeyEvent_def handleNavigationMode_def handleSaveAsPrompt_def
  handleEnterKey_def handleEnterOnRequestTab_def handleBackspaceKey_def updateFocus_def
  AddNewSavedRequest_def saveRequests_def LoadRequestFromSaved_def AddHeader_def
  RemoveLastHeader_def go_append_def go_alloc_def slice_view_def SplitN2_def
  textinput_Value_def textarea_Value_def textinput_SetValue_def textarea_SetValue_def
  textinput_Blur_def textarea_Blur_def textinput_Focus_def list_SetItems_def
  list_SelectedItem_def typed_name_def typed_header_def toJSON_def
  handleInputMode_def signed_modulo_int_def Let_def

lemma fresh_more:
  "savedList fresh = \<lparr>l_items = [], l_index = 0\<rparr>"
  "saveNameInput fresh = \<lparr>ti_value = [], ti_focus = False, ti_Width = 0\<rparr>"
  "ta_value (bodyInput fresh) = []" "fileWrites fresh = []" "configPath fresh = ''requests.json''"
  "headerMem fresh = \<lparr>cells = (\<lambda>_. [])(Suc 0 := [Header ''Content-Type'' ''application/json'']),
                       next_ptr = 2, growcap = (\<lambda>n. 2 * n)\<rparr>"
  by (simp_all add: fresh_def NewAppModel_def loadRequests_def go_alloc_def empty_mem_def Let_def
      textinput_New_def textarea_New_def list_New_def)

text \<open>
  Claim C1 at a concrete run. The user types a URL and presses Enter: the send is
  dispatched, and a request built at that moment would be a GET. The user then presses
  \<open>l\<close>, which moves the method to POST. The closure returned by \<open>sendRequest\<close> builds
  its request only when it runs, from the model as it is then: run after the key, it hands a
  POST to the transport.
\<close>

theorem send_reads_model_when_run:
  "run example_lib fresh [Key ''2'', Key ''i'', TypeURL ''http://x/y'', Key ''esc'', Key ''1'']
     = Inr (typed_url fresh ''http://x/y'') \<and>
   HandleKeyEvent example_lib (typed_url fresh ''http://x/y'') ''enter''
     = Inr (sent_state, Some SendRequest, True) \<and>
   sendRequest_run sent_state
     = Inr \<lparr>Method = ''GET'', URL = ''http://x/y'', Headers = headers fresh,
            Params = params fresh, Body = []\<rparr> \<and>
   HandleKeyEvent example_lib sent_state ''l''
     = Inr (sent_state\<lparr>selectedMethod := 1\<rparr>, None, True) \<and>
   sendRequest_run (sent_state\<lparr>selectedMethod := 1\<rparr>)
     = Inr \<lparr>Method = ''POST'', URL = ''http://x/y'', Headers = headers fresh,
            Params = params fresh, Body = []\<rparr>"
  by (simp add: sent_state_def typed_url_def HandleKeyEvent_def handleNavigationMode_def
      handleInputMode_def updateFocus_def textinput_Blur_def textarea_Blur_def textinput_Focus_def
      handleEnterKey_def handleEnterOnRequestTab_def sendRequest_def sendRequest_run_def
      NewHTTPRequest_def GetCurrentMethod_def MethodNames_def textinput_Value_def textarea_Value_def
      fresh_fields fresh_simps fresh_more signed_modulo_int_def)


text \<open>
  Claim C2 at a concrete run. The draft with the default header is saved as \<open>Demo\<close>; the
  preset in memory and the file both hold that header. Backspace then removes the header
  from the draft and Enter appends \<open>(X, 1)\<close>: the append writes into the array that the
  preset still points to, so the preset in memory now holds \<open>(X, 1)\<close>. Selecting the
  preset from the saved list loads \<open>(X, 1)\<close>, not the header saved.
\<close>

theorem preset_shares_header_array:
  "headers_of (run example_lib fresh [Key ''ctrl+s'', TypeName ''Demo'', Key ''enter''])
     = Some [Header ''Content-Type'' ''application/json''] \<and>
   saved_headers_of (run example_lib fresh [Key ''ctrl+s'', TypeName ''Demo'', Key ''enter''])
     = Some [[Header ''Content-Type'' ''application/json'']] \<and>
   saved_headers_of (run example_lib fresh
      [Key ''ctrl+s'', TypeName ''Demo'', Key ''enter'',
       Key ''3'', Key ''backspace'', Key ''i'', TypeHeader ''X=1'', Key ''enter'', Key ''esc''])
     = Some [[Header ''X'' ''1'']] \<and>
   headers_of (run example_lib fresh
      [Key ''ctrl+s'', TypeName ''Demo'', Key ''enter'',
       Key ''3'', Key ''backspace'', Key ''i'', TypeHeader ''X=1'', Key ''enter'', Key ''esc'',
       Key ''h'', Key ''enter''])
     = Some [Header ''X'' ''1'']"
  by (simp add: key_defs fresh_fields fresh_simps fresh_more example_lib_def empty_slice_def
      headers_of_def saved_headers_of_def draft_headers_def)

section \<open>The Enter key\<close>

lemmas run_defs = key_defs fresh_fields fresh_simps fresh_more empty_slice_def
  handleDeleteConfirmation_def DeleteSelectedRequest_def list_Index_def

lemma lower_more: "ToLower ''y'' = ''y''" "ToLower ''d'' = ''d''" "ToLower ''enter'' = ''enter''"
  by code_simp+

lemma enter_key_reaches_action:
  assumes "\<not> isSaving m" "\<not> isDeleting m" "inputMode m \<or> activeTab m = TabRequest"
    "activeSection m = SectionHeaders \<or> activeSection m = SectionParams"
  shows "HandleKeyEvent L m ''enter'' =
    Inr (fst (handleEnterOnRequestTab m), snd (handleEnterOnRequestTab m), True)"
  using assms
  by (auto simp: HandleKeyEvent_def handleNavigationMode_def handleInputMode_def handleEnterKey_def
      split_beta)

text \<open>
  Claim C5, as amended. Enter pressed with no overlay open, in text-edit mode or in
  navigation mode on the Request tab, with the Headers (respectively Params) section active:
  a buffer \<open>k=v\<close>, where \<open>k\<close> holds no \<open>=\<close>, is split at its first \<open>=\<close>; the
  entry \<open>(k, v)\<close> is appended at the end of the list and the buffer is cleared, so
  \<open>X=1\<close> gives \<open>(X, 1)\<close> and \<open>X=1=2\<close> gives \<open>(X, 1=2)\<close>. A buffer without
  \<open>=\<close> leaves the whole model, the buffer included, as it was. The key is consumed.
\<close>

theorem enter_key_appends_split_entry:
  "(\<not> isSaving m \<and> \<not> isDeleting m \<and> (inputMode m \<or> activeTab m = TabRequest) \<and>
    activeSection m = SectionHeaders \<and> slice_ok (headerMem m) (headers m) \<and>
    textinput_Value (headerInput m) = k @ CHR ''='' # v \<and> CHR ''='' \<notin> set k \<longrightarrow>
      (\<exists>m'. HandleKeyEvent L m ''enter'' = Inr (m', None, True) \<and>
         slice_view (headerMem m') (headers m') = slice_view (headerMem m) (headers m) @ [Header k v] \<and>
         textinput_Value (headerInput m') = [])) \<and>
   (\<not> isSaving m \<and> \<not> isDeleting m \<and> (inputMode m \<or> activeTab m = TabRequest) \<and>
    activeSection m = SectionHeaders \<and> CHR ''='' \<notin> set (textinput_Value (headerInput m)) \<longrightarrow>
      HandleKeyEvent L m ''enter'' = Inr (m, None, True)) \<and>
   (\<not> isSaving m \<and> \<not> isDeleting m \<and> (inputMode m \<or> activeTab m = TabRequest) \<and>
    activeSection m = SectionParams \<and> slice_ok (paramMem m) (params m) \<and>
    textinput_Value (paramInput m) = k @ CHR ''='' # v \<and> CHR ''='' \<notin> set k \<longrightarrow>
      (\<exists>m'. HandleKeyEvent L m ''enter'' = Inr (m', None, True) \<and>
         slice_view (paramMem m') (params m') = slice_view (paramMem m) (params m) @ [Param k v] \<and>
         textinput_Value (paramInput m') = [])) \<and>
   (\<not> isSaving m \<and> \<not> isDeleting m \<and> (inputMode m \<or> activeTab m = TabRequest) \<and>
    activeSection m = SectionParams \<and> CHR ''='' \<notin> set (textinput_Value (paramInput m)) \<longrightarrow>
      HandleKeyEvent L m ''enter'' = Inr (m, None, True))"
proof (intro conjI impI)
  assume a: "\<not> isSaving m \<and> \<not> isDeleting m \<and> (inputMode m \<or> activeTab m = TabRequest) \<and>
    activeSection m = SectionHeaders \<and> slice_ok (headerMem m) (headers m) \<and>
    textinput_Value (headerInput m) = k @ CHR ''='' # v \<and> CHR ''='' \<notin> set k"
  with enter_action_appends_split_entry [of m k v] obtain m' where
    "handleEnterOnRequestTab m = (m', None)"
    "slice_view (headerMem m') (headers m') = slice_view (headerMem m) (headers m) @ [Header k v]"
    "textinput_Value (headerInput m') = []"
    by blast
  with a enter_key_reaches_action [of m L]
  show "\<exists>m'. HandleKeyEvent L m ''enter'' = Inr (m', None, True) \<and>
         slice_view (headerMem m') (headers m') = slice_view (headerMem m) (headers m) @ [Header k v] \<and>
         textinput_Value (headerInput m') = []"
    by simp
next
  assume a: "\<not> isSaving m \<and> \<not> isDeleting m \<and> (inputMode m \<or> activeTab m = TabRequest) \<and>
    activeSection m = SectionHeaders \<and> CHR ''='' \<notin> set (textinput_Value (headerInput m))"
  with enter_action_appends_split_entry [of m k v] have "handleEnterOnRequestTab m = (m, None)" by blast
  with a enter_key_reaches_action [of m L] show "HandleKeyEvent L m ''enter'' = Inr (m, None, True)"
    by simp
next
  assume a: "\<not> isSaving m \<and> \<not> isDeleting m \<and> (inputMode m \<or> activeTab m = TabRequest) \<and>
    activeSection m = SectionParams \<and> slice_ok (paramMem m) (params m) \<and>
    textinput_Value (paramInput m) = k @ CHR ''='' # v \<and> CHR ''='' \<notin> set k"
  with enter_action_appends_split_entry [of m k v] obtain m' where
    "handleEnterOnRequestTab m = (m', None)"
    "slice_view (paramMem m') (params m') = slice_view (paramMem m) (params m) @ [Param k v]"
    "textinput_Value (paramInput m') = []"
    by blast
  with a enter_key_reaches_action [of m L]
  show "\<exists>m'. HandleKeyEvent L m ''enter'' = Inr (m', None, True) \<and>
         slice_view (paramMem m') (params m') = slice_view (paramMem m) (params m) @ [Param k v] \<and>
         textinput_Value (paramInput m') = []"
    by simp
next
  assume a: "\<not> isSaving m \<and> \<not> isDeleting m \<and> (inputMode m \<or> activeTab m = TabRequest) \<and>
    activeSection m = SectionParams \<and> CHR ''='' \<notin> set (textinput_Value (paramInput m))"
  with enter_action_appends_split_entry [of m k v] have "handleEnterOnRequestTab m = (m, None)" by blast
  with a enter_key_reaches_action [of m L] show "HandleKeyEvent L m ''enter'' = Inr (m, None, True)"
    by simp
qed

text \<open>
  Claim C5 as stated fails in navigation mode off the Request tab. After the keys \<open>3\<close>,
  \<open>i\<close>, the text \<open>X=1\<close>, \<open>esc\<close> and \<open>l\<close> the Headers section is the active
  one and its buffer holds \<open>X=1\<close>, yet Enter, which is consumed, appends nothing and
  leaves the buffer: \<open>handleEnterKey\<close> does nothing on the Response tab. With the save
  prompt open over the Headers section, Enter closes the prompt and appends nothing either.
\<close>

theorem enter_off_request_tab_appends_nothing:
  "run example_lib fresh [Key ''3'', Key ''i'', TypeHeader ''X=1'', Key ''esc'', Key ''l'']
     = Inr (typed_header backspace_state ''X=1'') \<and>
   activeSection (typed_header backspace_state ''X=1'') = SectionHeaders \<and>
   textinput_Value (headerInput (typed_header backspace_state ''X=1'')) = ''X=1'' \<and>
   draft_headers (typed_header backspace_state ''X=1'')
     = [Header ''Content-Type'' ''application/json''] \<and>
   HandleKeyEvent example_lib (typed_header backspace_state ''X=1'') ''enter''
     = Inr (typed_header backspace_state ''X=1'', None, True) \<and>
   HandleKeyEvent example_lib
       (typed_header (saving_state\<lparr>activeSection := SectionHeaders\<rparr>) ''X=1'') ''enter''
     = Inr (typed_header (fresh\<lparr>activeSection := SectionHeaders\<rparr>) ''X=1'', None, True)"
proof -
  have "HandleKeyEvent example_lib
       (typed_header (saving_state\<lparr>activeSection := SectionHeaders\<rparr>) ''X=1'') ''enter''
     = Inr (typed_header (fresh\<lparr>activeSection := SectionHeaders\<rparr>) ''X=1'', None, True)"
    by (simp add: run_defs example_lib_def saving_state_def)
  then show ?thesis
    by (simp add: run_defs example_lib_def backspace_state_def draft_headers_def)
qed

theorem enter_key_appends_split_entry_witness:
  "(\<exists>m'. HandleKeyEvent example_lib
            (typed_header (fresh\<lparr>activeSection := SectionHeaders\<rparr>) ''X=1=2'') ''enter''
          = Inr (m', None, True) \<and>
      slice_view (headerMem m') (headers m') =
        [Header ''Content-Type'' ''application/json'', Header ''X'' ''1=2''] \<and>
      textinput_Value (headerInput m') = []) \<and>
   (\<exists>m'. HandleKeyEvent example_lib
            ((typed_header backspace_state ''X=1'')\<lparr>inputMode := True\<rparr>) ''enter''
          = Inr (m', None, True) \<and>
      slice_view (headerMem m') (headers m') =
        [Header ''Content-Type'' ''application/json'', Header ''X'' ''1''] \<and>
      textinput_Value (headerInput m') = []) \<and>
   HandleKeyEvent example_lib
       (typed_header (fresh\<lparr>activeSection := SectionHeaders\<rparr>) ''noequalsign'') ''enter''
     = Inr (typed_header (fresh\<lparr>activeSection := SectionHeaders\<rparr>) ''noequalsign'', None, True) \<and>
   (\<exists>m'. HandleKeyEvent example_lib
            (typed_param (fresh\<lparr>activeSection := SectionParams\<rparr>) ''X=1'') ''enter''
          = Inr (m', None, True) \<and>
      slice_view (paramMem m') (params m') = [Param ''X'' ''1''] \<and>
      textinput_Value (paramInput m') = []) \<and>
   HandleKeyEvent example_lib
       (typed_param (fresh\<lparr>activeSection := SectionParams\<rparr>) ''noequalsign'') ''enter''
     = Inr (typed_param (fresh\<lparr>activeSection := SectionParams\<rparr>) ''noequalsign'', None, True)"
proof -
  let ?h = "typed_header (fresh\<lparr>activeSection := SectionHeaders\<rparr>)"
  let ?t = "(typed_header backspace_state ''X=1'')\<lparr>inputMode := True\<rparr>"
  let ?p = "typed_param (fresh\<lparr>activeSection := SectionParams\<rparr>)"
  have 1: "\<not> isSaving (?h ''X=1=2'') \<and> \<not> isDeleting (?h ''X=1=2'') \<and>
      (inputMode (?h ''X=1=2'') \<or> activeTab (?h ''X=1=2'') = TabRequest) \<and>
      activeSection (?h ''X=1=2'') = SectionHeaders \<and>
      slice_ok (headerMem (?h ''X=1=2'')) (headers (?h ''X=1=2'')) \<and>
      textinput_Value (headerInput (?h ''X=1=2'')) = ''X'' @ CHR ''='' # ''1=2'' \<and>
      CHR ''='' \<notin> set ''X''"
    by (simp add: typed_header_def fresh_simps fresh_fields slice_ok_def textinput_Value_def)
  have 2: "\<not> isSaving ?t \<and> \<not> isDeleting ?t \<and> (inputMode ?t \<or> activeTab ?t = TabRequest) \<and>
      activeSection ?t = SectionHeaders \<and> slice_ok (headerMem ?t) (headers ?t) \<and>
      textinput_Value (headerInput ?t) = ''X'' @ CHR ''='' # ''1'' \<and> CHR ''='' \<notin> set ''X''"
    by (simp add: typed_header_def backspace_state_def fresh_simps fresh_fields slice_ok_def
        textinput_Value_def)
  have 3: "\<not> isSaving (?h ''noequalsign'') \<and> \<not> isDeleting (?h ''noequalsign'') \<and>
      (inputMode (?h ''noequalsign'') \<or> activeTab (?h ''noequalsign'') = TabRequest) \<and>
      activeSection (?h ''noequalsign'') = SectionHeaders \<and>
      CHR ''='' \<notin> set (textinput_Value (headerInput (?h ''noequalsign'')))"
    by (simp add: typed_header_def fresh_simps fresh_fields textinput_Value_def)
  have 4: "\<not> isSaving (?p ''X=1'') \<and> \<not> isDeleting (?p ''X=1'') \<and>
      (inputMode (?p ''X=1'') \<or> activeTab (?p ''X=1'') = TabRequest) \<and>
      activeSection (?p ''X=1'') = SectionParams \<and>
      slice_ok (paramMem (?p ''X=1'')) (params (?p ''X=1'')) \<and>
      textinput_Value (paramInput (?p ''X=1'')) = ''X'' @ CHR ''='' # ''1'' \<and>
      CHR ''='' \<notin> set ''X''"
    by (simp add: typed_param_def fresh_simps fresh_fields slice_ok_def textinput_Value_def
        empty_slice_def)
  have 5: "\<not> isSaving (?p ''noequalsign'') \<and> \<not> isDeleting (?p ''noequalsign'') \<and>
      (inputMode (?p ''noequalsign'') \<or> activeTab (?p ''noequalsign'') = TabRequest) \<and>
      activeSection (?p ''noequalsign'') = SectionParams \<and>
      CHR ''='' \<notin> set (textinput_Value (paramInput (?p ''noequalsign'')))"
    by (simp add: typed_param_def fresh_simps fresh_fields textinput_Value_def)
  have v1: "slice_view (headerMem (?h ''X=1=2'')) (headers (?h ''X=1=2'')) =
      [Header ''Content-Type'' ''application/json'']"
    by (simp add: typed_header_def fresh_simps slice_view_def)
  have v2: "slice_view (headerMem ?t) (headers ?t) = [Header ''Content-Type'' ''application/json'']"
    by (simp add: typed_header_def backspace_state_def fresh_simps slice_view_def)
  have v4: "slice_view (paramMem (?p ''X=1'')) (params (?p ''X=1'')) = []"
    by (simp add: typed_param_def fresh_simps slice_view_def empty_slice_def)
  from enter_key_appends_split_entry [of "?h ''X=1=2''" "''X''" "''1=2''" example_lib] 1 v1
  have a: "\<exists>m'. HandleKeyEvent example_lib (?h ''X=1=2'') ''enter'' = Inr (m', None, True) \<and>
      slice_view (headerMem m') (headers m') =
        [Header ''Content-Type'' ''application/json'', Header ''X'' ''1=2''] \<and>
      textinput_Value (headerInput m') = []"
    by simp
  from enter_key_appends_split_entry [of ?t "''X''" "''1''" example_lib] 2 v2
  have b: "\<exists>m'. HandleKeyEvent example_lib ?t ''enter'' = Inr (m', None, True) \<and>
      slice_view (headerMem m') (headers m') =
        [Header ''Content-Type'' ''application/json'', Header ''X'' ''1''] \<and>
      textinput_Value (headerInput m') = []"
    by simp
  from enter_key_appends_split_entry [of "?h ''noequalsign''" "[]" "[]" example_lib] 3
  have c: "HandleKeyEvent example_lib (?h ''noequalsign'') ''enter''
      = Inr (?h ''noequalsign'', None, True)"
    by blast
  from enter_key_appends_split_entry [of "?p ''X=1''" "''X''" "''1''" example_lib] 4 v4
  have d: "\<exists>m'. HandleKeyEvent example_lib (?p ''X=1'') ''enter'' = Inr (m', None, True) \<and>
      slice_view (paramMem m') (params m') = [Param ''X'' ''1''] \<and>
      textinput_Value (paramInput m') = []"
    by simp
  from enter_key_appends_split_entry [of "?p ''noequalsign''" "[]" "[]" example_lib] 5
  have e: "HandleKeyEvent example_lib (?p ''noequalsign'') ''enter''
      = Inr (?p ''noequalsign'', None, True)"
    by blast
  from a b c d e show ?thesis by blast
qed




section \<open>The delete confirmation with a cursor that is off\<close>

lemma stale_run:
  "run typing_lib fresh
     (map Key [''ctrl+s'', ''A'', ''enter'', ''ctrl+s'', ''B'', ''enter'',
               ''2'', ''h'', ''j'', ''d'', ''y'', ''d''])
   = Inr stale_state"
  by (simp add: run_defs typing_lib_def example_lib_def stale_state_def preset_named_def
      json_named_def lower_more)

lemma run_keys_reachable:
  "reachable L m \<Longrightarrow> run L m (map Key ks) = Inr m' \<Longrightarrow> reachable L m'"
proof (induction ks arbitrary: m)
  case Nil
  then show ?case by simp
next
  case (Cons k ks)
  from Cons.prems(2) obtain m1 c b where
    1: "HandleKeyEvent L m k = Inr (m1, c, b)" and 2: "run L m1 (map Key ks) = Inr m'"
    by (auto split: sum.splits prod.splits)
  from Cons.prems(1) 1 have "reachable L m1" by (rule reachable.key)
  then show ?case using 2 by (rule Cons.IH)
qed

lemma reachable_typing_fresh: "reachable typing_lib fresh"
proof -
  have eq: "fresh = NewAppModel typing_lib (\<lambda>n. 2 * n) ''requests.json'' None"
    by (simp add: fresh_def NewAppModel_def loadRequests_def)
  show ?thesis by (subst eq) (rule reachable.init)
qed

text \<open>
  Claim C3 at a concrete run. Two presets are saved, the cursor is moved to the second,
  the second is deleted and \<open>d\<close> is pressed again. The state reached has the delete
  confirmation open and the save prompt closed, one preset, and the cursor still at 1.
  There the key \<open>y\<close> is not consumed: \<open>m.savedRequests[idx+1:]\<close> panics, and
  \<open>HandleKeyEvent\<close> returns nothing.
\<close>

theorem delete_overlay_key_panics:
  "run typing_lib fresh
     (map Key [''ctrl+s'', ''A'', ''enter'', ''ctrl+s'', ''B'', ''enter'',
               ''2'', ''h'', ''j'', ''d'', ''y'', ''d''])
     = Inr stale_state \<and>
   reachable typing_lib stale_state \<and>
   isDeleting stale_state \<and> \<not> isSaving stale_state \<and>
   HandleKeyEvent typing_lib stale_state ''y'' = Inl SliceBoundsOutOfRange"
proof -
  have r: "reachable typing_lib stale_state"
    using reachable_typing_fresh stale_run by (rule run_keys_reachable)
  have "HandleKeyEvent typing_lib stale_state ''y'' = Inl SliceBoundsOutOfRange"
    by (simp add: HandleKeyEvent_def handleDeleteConfirmation_def DeleteSelectedRequest_def
        list_Index_def stale_state_def fresh_fields lower_more)
  with r stale_run show ?thesis by (simp add: stale_state_def fresh_fields)
qed

text \<open>
  Claim C4 at two concrete states. In the state above, with one preset and the cursor at
  1, no preset is under the cursor and \<open>y\<close> in the delete confirmation panics: nothing
  is removed or written, the overlay stays and the key is not consumed. In the second state
  the list shows only the second of two presets, so the preset under the cursor is the
  second one; \<open>y\<close> removes the first, the one at the cursor's index in the whole list,
  and writes the list that still holds the selected preset.
\<close>

theorem delete_confirmation_misses_selection:
  "length (savedRequests stale_state) = 1 \<and>
   list_Index (savedList stale_state) = 1 \<and>
   handleDeleteConfirmation stale_state ''y'' = Inl SliceBoundsOutOfRange \<and>
   savedRequests narrowed_state = [demo_preset, other_preset] \<and>
   list_SelectedItem (savedList narrowed_state) = Some other_preset \<and>
   handleDeleteConfirmation narrowed_state ''y''
     = Inr ((saveRequests
              (narrowed_state\<lparr>savedRequests := [other_preset],
                 savedList := list_SetItems (savedList narrowed_state) [other_preset]\<rparr>))
            \<lparr>isDeleting := False\<rparr>, None, True)"
  by (simp add: handleDeleteConfirmation_def DeleteSelectedRequest_def list_Index_def
      list_SelectedItem_def stale_state_def narrowed_state_def lower_more Let_def)

end
